theory Spec2Isabelle
  imports Complex_Main
begin

section \<open>The store: four tables of db_manager.py\<close>

text \<open>
  The tables created by \<^verbatim>\<open>init_database\<close> are lists of rows, in insertion order.
  A calendar date is its day number, so that \<^verbatim>\<open>date + timedelta(days=1)\<close> is \<open>d + 1\<close>;
  the text form \<^verbatim>\<open>%Y-%m-%d\<close> under which a date is stored is one-to-one and is not
  modelled, and the clock is taken to stay inside the range of Python's dates. One request
  reads one calendar date: the \<open>today\<close> argument stands for every \<^verbatim>\<open>datetime.now().date()\<close>
  of that request. Columns that none of the modelled operations reads or writes (email,
  password hash, level, timestamps, the row ids of the three child tables) are left out.
  A Python float is read as the real number it holds (the thresholds 2.0 and 3.0 are exact
  floats, so the comparisons agree), and Python's integers are \<open>int\<close>.
\<close>

type_synonym date = int

record user_row =
  user_id :: int
  total_streak :: int
  current_streak :: int
  last_checkin :: "date option"
  is_locked :: int
  lock_end_date :: "date option"

record daily_goal_row =
  dg_user_id :: int
  dg_date :: date
  german_hours :: real
  tech_hours :: real
  applications_sent :: int
  words_learned :: int
  checkin_completed :: int

record achievement_row =
  ach_user_id :: int
  achievement_name :: string
  date_earned :: date

record penalty_row =
  pen_user_id :: int
  amount :: real
  reason :: string
  pen_date :: date
  paid :: int

text \<open>
  Every function of db_manager.py opens a connection, runs its statements, commits, and
  turns an \<^verbatim>\<open>sqlite3.Error\<close> into its failure value. Whether the store fails is not
  decided by the program, so the state carries a schedule \<open>faults\<close>: each call of a
  db_manager function takes the head of the schedule, and \<open>True\<close> there means that this call
  raises \<^verbatim>\<open>sqlite3.Error\<close> before its commit (nothing is written). The empty schedule is a
  store that never fails.
\<close>

record db =
  users :: "user_row list"
  daily_goals :: "daily_goal_row list"
  achievements :: "achievement_row list"
  penalties :: "penalty_row list"
  faults :: "bool list"

definition db_attempt :: "db \<Rightarrow> bool \<times> db" where
  "db_attempt d =
     (case faults d of
        [] \<Rightarrow> (True, d)
      | f # fs \<Rightarrow> (\<not> f, d\<lparr>faults := fs\<rparr>))"

subsection \<open>db_manager.py\<close>

definition get_user :: "int \<Rightarrow> db \<Rightarrow> user_row option \<times> db" where
  "get_user uid d =
     (let (ok, d1) = db_attempt d
      in if ok then (find (\<lambda>u. user_id u = uid) (users d1), d1) else (None, d1))"

definition log_daily_goals_db ::
  "int \<Rightarrow> date \<Rightarrow> real \<Rightarrow> real \<Rightarrow> int \<Rightarrow> int \<Rightarrow> int \<Rightarrow> db \<Rightarrow> bool \<times> db" where
  "log_daily_goals_db uid day gh th apps words completed d =
     (let (ok, d1) = db_attempt d
      in if ok then
           (case find (\<lambda>r. dg_user_id r = uid \<and> dg_date r = day) (daily_goals d1) of
              Some existing \<Rightarrow>
                (True, d1\<lparr>daily_goals :=
                   map (\<lambda>r. if dg_user_id r = uid \<and> dg_date r = day
                             then r\<lparr>german_hours := gh, tech_hours := th,
                                    applications_sent := apps, words_learned := words,
                                    checkin_completed := completed\<rparr>
                             else r) (daily_goals d1)\<rparr>)
            | None \<Rightarrow>
                (True, d1\<lparr>daily_goals := daily_goals d1 @
                   [\<lparr>dg_user_id = uid, dg_date = day, german_hours = gh, tech_hours = th,
                     applications_sent = apps, words_learned = words,
                     checkin_completed = completed\<rparr>]\<rparr>))
         else (False, d1))"

definition get_daily_goal_completion_status :: "int \<Rightarrow> date \<Rightarrow> db \<Rightarrow> bool \<times> db" where
  "get_daily_goal_completion_status uid day d =
     (let (ok, d1) = db_attempt d
      in if ok then
           (case find (\<lambda>r. dg_user_id r = uid \<and> dg_date r = day) (daily_goals d1) of
              Some result \<Rightarrow> (checkin_completed result = 1, d1)
            | None \<Rightarrow> (False, d1))
         else (False, d1))"

definition update_user_streak_data ::
  "int \<Rightarrow> int \<Rightarrow> int \<Rightarrow> int \<Rightarrow> date option \<Rightarrow> date option \<Rightarrow> db \<Rightarrow> bool \<times> db" where
  "update_user_streak_data uid cur tot locked lock_end checkin d =
     (let (ok, d1) = db_attempt d
      in if ok then
           (True, d1\<lparr>users :=
              map (\<lambda>u. if user_id u = uid
                        then u\<lparr>current_streak := cur, total_streak := tot, is_locked := locked,
                               lock_end_date := lock_end, last_checkin := checkin\<rparr>
                        else u) (users d1)\<rparr>)
         else (False, d1))"

definition unlock_app_db :: "int \<Rightarrow> db \<Rightarrow> bool \<times> db" where
  "unlock_app_db uid d =
     (let (ok, d1) = db_attempt d
      in if ok then
           (True, d1\<lparr>users :=
              map (\<lambda>u. if user_id u = uid then u\<lparr>is_locked := 0, lock_end_date := None\<rparr>
                        else u) (users d1)\<rparr>)
         else (False, d1))"

definition reset_streak_and_unlock_db :: "int \<Rightarrow> db \<Rightarrow> bool \<times> db" where
  "reset_streak_and_unlock_db uid d =
     (let (ok, d1) = db_attempt d
      in if ok then
           (True, d1\<lparr>users :=
              map (\<lambda>u. if user_id u = uid
                        then u\<lparr>current_streak := 0, is_locked := 0, lock_end_date := None\<rparr>
                        else u) (users d1)\<rparr>)
         else (False, d1))"

text \<open>
  The achievements table is declared with a primary key, two NOT NULL columns and a
  foreign key that SQLite does not enforce unless asked to; it has no UNIQUE constraint.
  With a name and a date given, the INSERT of \<^verbatim>\<open>add_achievement_db\<close> therefore violates no
  constraint, and its \<^verbatim>\<open>except sqlite3.IntegrityError\<close> branch is never taken.
\<close>

definition add_achievement_db :: "int \<Rightarrow> string \<Rightarrow> date \<Rightarrow> db \<Rightarrow> bool \<times> db" where
  "add_achievement_db uid name day d =
     (let (ok, d1) = db_attempt d
      in if ok then
           (True, d1\<lparr>achievements := achievements d1 @
              [\<lparr>ach_user_id = uid, achievement_name = name, date_earned = day\<rparr>]\<rparr>)
         else (False, d1))"

definition add_penalty_db :: "int \<Rightarrow> real \<Rightarrow> string \<Rightarrow> date \<Rightarrow> db \<Rightarrow> bool \<times> db" where
  "add_penalty_db uid amt why day d =
     (let (ok, d1) = db_attempt d
      in if ok then
           (True, d1\<lparr>penalties := penalties d1 @
              [\<lparr>pen_user_id = uid, amount = amt, reason = why, pen_date = day, paid = 0\<rparr>]\<rparr>)
         else (False, d1))"

subsection \<open>goal_service.py\<close>

definition goals_met :: "real \<Rightarrow> real \<Rightarrow> int \<Rightarrow> int \<Rightarrow> bool" where
  "goals_met gh th apps words =
     (let required_german_hours = 2;
          required_tech_hours = 3;
          required_applications_sent = 5;
          required_words_learned = 50
      in gh \<ge> required_german_hours \<and> th \<ge> required_tech_hours \<and>
         apps \<ge> required_applications_sent \<and> words \<ge> required_words_learned)"

definition add_penalty :: "int \<Rightarrow> real \<Rightarrow> string \<Rightarrow> date \<Rightarrow> db \<Rightarrow> bool \<times> db" where
  "add_penalty uid amt why today d = add_penalty_db uid amt why today d"

definition add_achievement :: "int \<Rightarrow> string \<Rightarrow> date \<Rightarrow> db \<Rightarrow> bool \<times> db" where
  "add_achievement uid name today d = add_achievement_db uid name today d"

definition unlock_app :: "int \<Rightarrow> db \<Rightarrow> bool \<times> db" where
  "unlock_app uid d = unlock_app_db uid d"

definition reset_streak_and_unlock :: "int \<Rightarrow> db \<Rightarrow> bool \<times> db" where
  "reset_streak_and_unlock uid d = reset_streak_and_unlock_db uid d"

definition check_daily_completion :: "int \<Rightarrow> date \<Rightarrow> db \<Rightarrow> bool \<times> db" where
  "check_daily_completion uid today d = get_daily_goal_completion_status uid today d"

definition update_user_streak :: "int \<Rightarrow> bool \<Rightarrow> date \<Rightarrow> db \<Rightarrow> bool \<times> db" where
  "update_user_streak uid streak_broken today d =
     (case get_user uid d of
        (None, d1) \<Rightarrow> (False, d1)
      | (Some user, d1) \<Rightarrow>
          (let cur = current_streak user;
               tot = total_streak user;
               locked = is_locked user;
               lock_end = None;
               checkin = Some today
           in if streak_broken
              then update_user_streak_data uid 0 tot 1 (Some (today + 1)) checkin d1
              else update_user_streak_data uid (cur + 1) (tot + 1) locked lock_end checkin d1))"

definition log_daily_goals ::
  "int \<Rightarrow> real \<Rightarrow> real \<Rightarrow> int \<Rightarrow> int \<Rightarrow> date \<Rightarrow> db \<Rightarrow> (bool \<times> string) \<times> db" where
  "log_daily_goals uid gh th apps words today d =
     (let met = goals_met gh th apps words;
          completed = (if met then 1 else 0);
          (success, d1) = log_daily_goals_db uid today gh th apps words completed d
      in if success then
           (if met then
              (let (r, d2) = update_user_streak uid False today d1
               in ((True, ''Daily goals completed!''), d2))
            else
              (let (r, d2) = update_user_streak uid True today d1;
                   (p, d3) = add_penalty uid 10 ''Daily goals not met'' today d2
               in ((False, ''Daily goals not met. App locked for 24 hours and penalty applied.''),
                   d3)))
         else ((False, ''Failed to log daily goals.''), d1))"

subsection \<open>api/routes.py: the check-in endpoint\<close>

text \<open>
  Exceptions of the Python run time that the modelled code can raise.
\<close>

datatype py_error = TypeError | AttributeError

text \<open>
  The endpoint first resolves the session token through \<^verbatim>\<open>auth_service\<close>. Looking a
  name up in a module raises \<^verbatim>\<open>AttributeError\<close> when the module does not bind it.
  \<open>auth_service_names\<close> are the names that services/auth_service.py binds: its imports
  and its four functions. What the looked-up name would hold, were it bound, is an argument
  of the lookup.
\<close>

definition auth_service_names :: "string list" where
  "auth_service_names =
     [''hashlib'', ''secrets'', ''datetime'', ''timedelta'', ''db_manager'', ''helpers'',
      ''create_user'', ''authenticate_user'', ''initiate_password_reset'', ''reset_password'']"

definition module_getattr :: "string list \<Rightarrow> string \<Rightarrow> 'f \<Rightarrow> py_error + 'f" where
  "module_getattr names name held =
     (if name \<in> set names then Inr held else Inl AttributeError)"

text \<open>
  \<^verbatim>\<open>header.replace('Bearer ', '')\<close>: every occurrence of the seven characters is removed,
  scanning from the left.
\<close>

fun strip_bearer :: "string \<Rightarrow> string" where
  "strip_bearer [] = []"
| "strip_bearer (c # cs) =
     (if take 7 (c # cs) = ''Bearer '' then strip_bearer (drop 6 cs) else c # strip_bearer cs)"

text \<open>
  A check-in request is its Authorization header, present or not, and its JSON body, in
  which each metric is present or missing; \<^verbatim>\<open>data.get(key, default)\<close> supplies the default
  for a missing one. The JSON response is reduced to its status code, the success flag and
  the message. An exception leaves the endpoint at once and carries no store.
\<close>

record checkin_json =
  j_german_hours :: "real option"
  j_tech_hours :: "real option"
  j_applications_sent :: "int option"
  j_words_learned :: "int option"

definition json_get :: "'a option \<Rightarrow> 'a \<Rightarrow> 'a" where
  "json_get field dflt = (case field of None \<Rightarrow> dflt | Some v \<Rightarrow> v)"

definition api_checkin ::
  "(string \<Rightarrow> db \<Rightarrow> int option \<times> db) \<Rightarrow> string option \<Rightarrow> checkin_json \<Rightarrow> date \<Rightarrow> db \<Rightarrow>
   py_error + ((nat \<times> bool \<times> string) \<times> db)" where
  "api_checkin held authorization data today d =
     (let session_token = strip_bearer (json_get authorization [])
      in case module_getattr auth_service_names ''validate_api_session'' held of
           Inl e \<Rightarrow> Inl e
         | Inr validate_api_session \<Rightarrow>
             (case validate_api_session session_token d of
                (None, d0) \<Rightarrow> Inr ((401, False, ''Invalid session''), d0)
              | (Some uid, d0) \<Rightarrow>
                  (if uid = 0 then Inr ((401, False, ''Invalid session''), d0)
                   else
                     (let gh = json_get (j_german_hours data) 0;
                          th = json_get (j_tech_hours data) 0;
                          apps = json_get (j_applications_sent data) 0;
                          words = json_get (j_words_learned data) 0;
                          ((success, message), d1) =
                             log_daily_goals uid gh th apps words today d0
                      in if success then Inr ((200, True, message), d1)
                         else Inr ((500, False, message), d1)))))"

subsection \<open>app.py: the check-in page\<close>

text \<open>
  \<^verbatim>\<open>log_daily_goals\<close> returns a pair, and the page tests that pair itself: a tuple of two
  elements is true in Python whatever it holds.
\<close>

definition tuple_truthy :: "bool \<times> string \<Rightarrow> bool" where
  "tuple_truthy r = True"

text \<open>
  The handler of the submitted check-in form; what the page draws is left out, the store
  is returned.
\<close>

definition checkin_page :: "int \<Rightarrow> real \<Rightarrow> real \<Rightarrow> int \<Rightarrow> int \<Rightarrow> date \<Rightarrow> db \<Rightarrow> db" where
  "checkin_page uid gh th apps words today d =
     (let (completed, d0) = check_daily_completion uid today d
      in if completed then d0
         else if gh \<ge> 2 \<and> th \<ge> 3 \<and> apps \<ge> 5 \<and> words \<ge> 50 then
           (let (logged, d1) = log_daily_goals uid gh th apps words today d0
            in if tuple_truthy logged then
                 (let (r, d2) = update_user_streak uid False today d1;
                      (user, d3) = get_user uid d2
                  in case user of
                       None \<Rightarrow> d3
                     | Some u \<Rightarrow>
                         (let streak = current_streak u
                          in if streak = 7 then snd (add_achievement uid ''Week Warrior'' today d3)
                             else if streak = 30 then snd (add_achievement uid ''Monthly Master'' today d3)
                             else if streak = 100 then snd (add_achievement uid ''Century Champion'' today d3)
                             else if streak = 365 then snd (add_achievement uid ''Yearly Legend'' today d3)
                             else d3))
               else d1)
         else
           (let (r, d1) = update_user_streak uid True today d0;
                (p, d2) = add_penalty uid 10 ''Daily goals not met'' today d1
            in d2))"

subsection \<open>app.py: the lock page\<close>

text \<open>
  The two redemption-task buttons call \<^verbatim>\<open>log_daily_goals\<close> with keyword arguments, so the
  binding of arguments to parameters is part of what they do. A Python call binds the
  positional arguments to the leading parameters, then each keyword argument to the
  parameter of that name; more positional arguments than parameters, a keyword that names
  no parameter, a parameter bound twice, or a parameter without a default left unbound
  raise \<^verbatim>\<open>TypeError\<close> before the body runs. None of the parameters of
  \<^verbatim>\<open>log_daily_goals\<close> has a default.
\<close>

definition bind_arguments ::
  "string list \<Rightarrow> 'v list \<Rightarrow> (string \<times> 'v) list \<Rightarrow> py_error + (string \<times> 'v) list" where
  "bind_arguments params pos kw =
     (let bound = zip params pos
      in if length pos > length params then Inl TypeError
         else if list_ex (\<lambda>k. k \<notin> set params) (map fst kw) then Inl TypeError
         else if list_ex (\<lambda>k. k \<in> set (map fst bound)) (map fst kw) then Inl TypeError
         else if list_ex (\<lambda>p. p \<notin> set (map fst (bound @ kw))) params then Inl TypeError
         else Inr (bound @ kw))"

definition log_daily_goals_params :: "string list" where
  "log_daily_goals_params =
     [''user_id'', ''german_hours'', ''tech_hours'', ''applications_sent'', ''words_learned'']"

text \<open>
  Argument values are numbers. The parameters that the model types as integers are read
  back with \<open>floor\<close>, the identity on the integers that every caller passes.
\<close>

definition call_log_daily_goals ::
  "real list \<Rightarrow> (string \<times> real) list \<Rightarrow> date \<Rightarrow> db \<Rightarrow> py_error + ((bool \<times> string) \<times> db)" where
  "call_log_daily_goals pos kw today d =
     (case bind_arguments log_daily_goals_params pos kw of
        Inl e \<Rightarrow> Inl e
      | Inr env \<Rightarrow>
          (case (map_of env ''user_id'', map_of env ''german_hours'', map_of env ''tech_hours'',
                 map_of env ''applications_sent'', map_of env ''words_learned'') of
             (Some u, Some gh, Some th, Some apps, Some words) \<Rightarrow>
               Inr (log_daily_goals \<lfloor>u\<rfloor> gh th \<lfloor>apps\<rfloor> \<lfloor>words\<rfloor> today d)
           | _ \<Rightarrow> Inl TypeError))"

text \<open>
  The three buttons of the lock page. An exception leaves the handler at once: the result
  \<open>Inl\<close> carries no store, the store stays the one before the click.
\<close>

definition lock_page_german_study :: "int \<Rightarrow> date \<Rightarrow> db \<Rightarrow> py_error + (string \<times> db)" where
  "lock_page_german_study uid today d =
     (case call_log_daily_goals [real_of_int uid]
             [(''german_hours'', 3), (''checkin_completed'', 1)] today d of
        Inl e \<Rightarrow> Inl e
      | Inr (logged, d1) \<Rightarrow>
          (if tuple_truthy logged then
             (let (ok, d2) = unlock_app uid d1
              in if ok then Inr (''Redemption completed! App unlocked.'', d2)
                 else Inr (''Failed to unlock app.'', d2))
           else Inr (''Failed to log redemption task.'', d1)))"

definition lock_page_applications :: "int \<Rightarrow> date \<Rightarrow> db \<Rightarrow> py_error + (string \<times> db)" where
  "lock_page_applications uid today d =
     (case call_log_daily_goals [real_of_int uid]
             [(''applications_sent'', 10), (''checkin_completed'', 1)] today d of
        Inl e \<Rightarrow> Inl e
      | Inr (logged, d1) \<Rightarrow>
          (if tuple_truthy logged then
             (let (ok, d2) = unlock_app uid d1
              in if ok then Inr (''Redemption completed! App unlocked.'', d2)
                 else Inr (''Failed to unlock app.'', d2))
           else Inr (''Failed to log redemption task.'', d1)))"

definition lock_page_pay :: "int \<Rightarrow> date \<Rightarrow> db \<Rightarrow> string \<times> db" where
  "lock_page_pay uid today d =
     (let (paid_ok, d1) = add_penalty uid 20 ''Redemption payment'' today d
      in if paid_ok then
           (let (ok, d2) = unlock_app uid d1
            in if ok then (''Payment completed! App unlocked.'', d2)
               else (''Failed to unlock app.'', d2))
         else (''Failed to record payment.'', d1))"

definition store_after :: "db \<Rightarrow> py_error + (string \<times> db) \<Rightarrow> db" where
  "store_after d r = (case r of Inl e \<Rightarrow> d | Inr (msg, d1) \<Rightarrow> d1)"

subsection \<open>app.py: the settings page\<close>

text \<open>
  A Streamlit page is a script that is run again from the top after each interaction, and
  \<^verbatim>\<open>st.button\<close> returns true only in the run that a click on that very button has started.
  A run of the page therefore has at most one clicked button.
\<close>

datatype settings_button =
  Update_API_Key | Emergency_Unlock | Confirm_Emergency_Unlock | Back_to_Dashboard

definition st_button :: "settings_button option \<Rightarrow> settings_button \<Rightarrow> bool" where
  "st_button clicked b = (clicked = Some b)"

text \<open>
  \<^verbatim>\<open>update_gemini_api_key\<close> writes a column that is not among the modelled ones; it is a
  call of the store like the others.
\<close>

definition update_gemini_api_key :: "int \<Rightarrow> string option \<Rightarrow> db \<Rightarrow> bool \<times> db" where
  "update_gemini_api_key uid api_key d = db_attempt d"

text \<open>
  The block under the Confirm button, lines 713 to 721 of app.py.
\<close>

definition confirm_emergency_unlock :: "int \<Rightarrow> date \<Rightarrow> db \<Rightarrow> string \<times> db" where
  "confirm_emergency_unlock uid today d =
     (let (charged, d1) = add_penalty uid 50 ''Emergency unlock'' today d
      in if charged then
           (let (ok, d2) = reset_streak_and_unlock uid d1
            in if ok then (''Emergency unlock complete. Streak reset. Keep going!'', d2)
               else (''Error resetting streak and unlocking app.'', d2))
         else (''Error recording emergency unlock penalty.'', d1))"

text \<open>
  One run of \<^verbatim>\<open>settings_page\<close>: \<open>clicked\<close> is the button whose click started the run, if
  any, \<open>gemini_available\<close> the constant of config.py and \<open>new_api_key\<close> the content of the
  text input. The result is the last message of the emergency section and the store.
\<close>

definition settings_page ::
  "int \<Rightarrow> settings_button option \<Rightarrow> bool \<Rightarrow> string \<Rightarrow> date \<Rightarrow> db \<Rightarrow> string \<times> db" where
  "settings_page uid clicked gemini_available new_api_key today d =
     (case get_user uid d of
        (None, d0) \<Rightarrow> ([], d0)
      | (Some user, d0) \<Rightarrow>
          (let d1 =
                 (if gemini_available \<and> st_button clicked Update_API_Key then
                    (if new_api_key \<noteq> [] \<and> new_api_key \<noteq> ''***hidden***''
                     then snd (update_gemini_api_key uid (Some new_api_key) d0)
                     else if new_api_key = []
                     then snd (update_gemini_api_key uid None d0)
                     else d0)
                  else d0)
           in if st_button clicked Emergency_Unlock then
                (if st_button clicked Confirm_Emergency_Unlock
                 then confirm_emergency_unlock uid today d1
                 else (''This will cost you $50 and reset your current streak!'', d1))
              else ([], d1)))"

section \<open>Stores used as concrete inputs\<close>

text \<open>
  \<open>new_user_row\<close> is the row that \<^verbatim>\<open>create_user_db\<close> inserts, its streak and lock columns
  at the defaults of the schema. \<open>fresh_db\<close> holds one such user, \<open>streak_db\<close> a user five
  days into a streak, \<open>locked_db\<close> a user locked on day 100 until day 101, and
  \<open>failing_store_db\<close> is \<open>locked_db\<close> on a store whose second call fails.
\<close>

definition new_user_row :: "int \<Rightarrow> user_row" where
  "new_user_row uid =
     \<lparr>user_id = uid, total_streak = 0, current_streak = 0, last_checkin = None,
      is_locked = 0, lock_end_date = None\<rparr>"

definition fresh_db :: db where
  "fresh_db = \<lparr>users = [new_user_row 1], daily_goals = [], achievements = [], penalties = [],
               faults = []\<rparr>"

definition locked_db :: db where
  "locked_db =
     \<lparr>users = [\<lparr>user_id = 1, total_streak = 4, current_streak = 0, last_checkin = Some 100,
                 is_locked = 1, lock_end_date = Some 101\<rparr>],
      daily_goals = [], achievements = [], penalties = [], faults = []\<rparr>"

definition streak_db :: db where
  "streak_db =
     \<lparr>users = [\<lparr>user_id = 1, total_streak = 9, current_streak = 5, last_checkin = Some 99,
                 is_locked = 0, lock_end_date = None\<rparr>],
      daily_goals = [], achievements = [], penalties = [], faults = []\<rparr>"

definition seven_days :: "date list" where
  "seven_days = [1, 2, 3, 4, 5, 6, 7]"

definition failing_store_db :: db where
  "failing_store_db = locked_db\<lparr>faults := [False, True]\<rparr>"

section \<open>The store when no call fails\<close>

lemma find_update_rows:
  assumes "\<And>r. user_id (g r) = user_id r"
  shows "find (\<lambda>r. user_id r = uid) (map (\<lambda>r. if user_id r = uid then g r else r) xs) =
         map_option g (find (\<lambda>r. user_id r = uid) xs)"
  by (induction xs) (simp_all add: assms)

lemma get_user_no_fault:
  "faults d = [] \<Longrightarrow> get_user uid d = (find (\<lambda>u. user_id u = uid) (users d), d)"
  by (simp add: get_user_def db_attempt_def)

lemma update_user_streak_broken:
  assumes "faults d = []" and "find (\<lambda>u. user_id u = uid) (users d) = Some u"
  shows "update_user_streak uid True today d =
     (True, d\<lparr>users := map (\<lambda>r. if user_id r = uid
        then r\<lparr>current_streak := 0, total_streak := total_streak u, is_locked := 1,
               lock_end_date := Some (today + 1), last_checkin := Some today\<rparr>
        else r) (users d)\<rparr>)"
  using assms
  by (simp add: update_user_streak_def get_user_no_fault update_user_streak_data_def
      db_attempt_def)

lemma update_user_streak_kept:
  assumes "faults d = []" and "find (\<lambda>u. user_id u = uid) (users d) = Some u"
  shows "update_user_streak uid False today d =
     (True, d\<lparr>users := map (\<lambda>r. if user_id r = uid
        then r\<lparr>current_streak := current_streak u + 1, total_streak := total_streak u + 1,
               is_locked := is_locked u, lock_end_date := None, last_checkin := Some today\<rparr>
        else r) (users d)\<rparr>)"
  using assms
  by (simp add: update_user_streak_def get_user_no_fault update_user_streak_data_def
      db_attempt_def)

lemma log_daily_goals_db_no_fault:
  assumes "faults d = []"
  shows "fst (log_daily_goals_db uid day gh th apps words c d) = True"
    and "users (snd (log_daily_goals_db uid day gh th apps words c d)) = users d"
    and "penalties (snd (log_daily_goals_db uid day gh th apps words c d)) = penalties d"
    and "achievements (snd (log_daily_goals_db uid day gh th apps words c d)) = achievements d"
    and "faults (snd (log_daily_goals_db uid day gh th apps words c d)) = []"
  using assms by (simp_all add: log_daily_goals_db_def db_attempt_def split: option.splits)

section \<open>Repeated submissions on one date\<close>

text \<open>
  Claim C1: however often the record of one user and one date is submitted through
  \<^verbatim>\<open>log_daily_goals\<close>, at most one streak transition is applied for that date, so that
  \<open>total_streak\<close> grows by at most 1 per date. \<^verbatim>\<open>log_daily_goals\<close> has no check for an
  earlier submission of the date: it calls \<^verbatim>\<open>update_user_streak\<close> on every call. For a new
  user who submits passing metrics twice on day 100, both counters stand at 2.
\<close>

theorem log_daily_goals_twice_same_date:
  "users (snd (log_daily_goals 1 2 3 5 50 100 (snd (log_daily_goals 1 2 3 5 50 100 fresh_db)))) =
     [\<lparr>user_id = 1, total_streak = 2, current_streak = 2, last_checkin = Some 100,
       is_locked = 0, lock_end_date = None\<rparr>]"
  by (simp add: fresh_db_def new_user_row_def log_daily_goals_def goals_met_def
      log_daily_goals_db_def db_attempt_def update_user_streak_def get_user_def
      update_user_streak_data_def)

section \<open>Awarding an achievement twice\<close>

text \<open>
  Claim C2: \<^verbatim>\<open>add_achievement\<close> called twice with the same user and name returns true, then
  false, and leaves one row. On the schema of \<^verbatim>\<open>init_database\<close> the second INSERT
  succeeds as the first did: both calls return true and the table holds two equal rows.
\<close>

theorem add_achievement_twice_duplicates:
  "fst (add_achievement 1 ''Week Warrior'' 100 fresh_db) = True \<and>
   fst (add_achievement 1 ''Week Warrior'' 100
         (snd (add_achievement 1 ''Week Warrior'' 100 fresh_db))) = True \<and>
   achievements (snd (add_achievement 1 ''Week Warrior'' 100
         (snd (add_achievement 1 ''Week Warrior'' 100 fresh_db)))) =
     [\<lparr>ach_user_id = 1, achievement_name = ''Week Warrior'', date_earned = 100\<rparr>,
      \<lparr>ach_user_id = 1, achievement_name = ''Week Warrior'', date_earned = 100\<rparr>]"
  by (simp add: fresh_db_def add_achievement_def add_achievement_db_def db_attempt_def)

section \<open>The goal evaluation\<close>

text \<open>
  The verdict of \<^verbatim>\<open>log_daily_goals\<close> is Pass exactly when german_hours \<ge> 2.0,
  tech_hours \<ge> 3.0, applications_sent \<ge> 5 and words_learned \<ge> 50, the bounds included:
  the exact thresholds pass, any value below its threshold fails. The third conjunct is
  the verdict as \<^verbatim>\<open>log_daily_goals\<close> returns it on a store that does not fail.
\<close>

lemma goals_met_iff_thresholds:
  "goals_met gh th apps words = (gh \<ge> 2 \<and> th \<ge> 3 \<and> apps \<ge> 5 \<and> words \<ge> 50) \<and>
   goals_met 2 3 5 50 \<and>
   fst (fst (log_daily_goals uid gh th apps words today (d\<lparr>faults := []\<rparr>))) =
     (gh \<ge> 2 \<and> th \<ge> 3 \<and> apps \<ge> 5 \<and> words \<ge> 50)"
proof -
  have g: "goals_met gh th apps words = (gh \<ge> 2 \<and> th \<ge> 3 \<and> apps \<ge> 5 \<and> words \<ge> 50)"
    for gh th apps words
    by (simp add: goals_met_def)
  have l: "fst (log_daily_goals uid gh th apps words today (d\<lparr>faults := []\<rparr>)) =
      (if goals_met gh th apps words then (True, ''Daily goals completed!'')
       else (False, ''Daily goals not met. App locked for 24 hours and penalty applied.''))"
    by (simp add: log_daily_goals_def log_daily_goals_db_def db_attempt_def Let_def
        split: option.splits prod.splits)
  show ?thesis
    by (simp add: l g)
qed

text \<open>
  A metric can be missing only in a request to the check-in endpoint, whose
  \<^verbatim>\<open>data.get\<close> calls would put 0 in its place; \<^verbatim>\<open>log_daily_goals\<close> itself takes all
  four. The endpoint does not get that far: services/auth_service.py binds no
  \<^verbatim>\<open>validate_api_session\<close>, so the lookup in the second statement of the endpoint raises
  for every request, whatever the header, the body and the store.
\<close>

lemma api_checkin_raises:
  "api_checkin held authorization data today d = Inl AttributeError"
  by (simp add: api_checkin_def module_getattr_def auth_service_names_def)

text \<open>
  Claim C3: the goal evaluation yields Pass exactly when all four thresholds are met,
  bounds included, and Fail when any value is below its threshold or a metric is missing
  (it then counts as 0). For the request of day 100 that carries a session token and all
  metrics but german_hours, the endpoint ends in \<^verbatim>\<open>AttributeError\<close>: no verdict is
  returned and no record is written.
\<close>

theorem api_checkin_missing_metric_raises:
  "api_checkin held (Some ''Bearer token'')
     \<lparr>j_german_hours = None, j_tech_hours = Some 3, j_applications_sent = Some 5,
      j_words_learned = Some 50\<rparr> 100 fresh_db = Inl AttributeError"
  by (simp add: api_checkin_def module_getattr_def auth_service_names_def)

section \<open>The transition on a Pass verdict\<close>

text \<open>
  What a Pass does to a user \<open>u\<close> that exists, on a store that does not fail: both
  counters go up by one, \<open>lock_end_date\<close> is cleared, \<open>last_checkin\<close> is the evaluation
  date, no penalty and no achievement is written. \<open>is_locked\<close> is written back as it was
  read.
\<close>

lemma log_daily_goals_pass:
  assumes "faults d = []"
    and "find (\<lambda>r. user_id r = uid) (users d) = Some u"
    and "goals_met gh th apps words"
  shows "fst (log_daily_goals uid gh th apps words today d) = (True, ''Daily goals completed!'')"
    and "find (\<lambda>r. user_id r = uid) (users (snd (log_daily_goals uid gh th apps words today d))) =
           Some (u\<lparr>current_streak := current_streak u + 1, total_streak := total_streak u + 1,
                   lock_end_date := None, last_checkin := Some today\<rparr>)"
    and "penalties (snd (log_daily_goals uid gh th apps words today d)) = penalties d"
    and "achievements (snd (log_daily_goals uid gh th apps words today d)) = achievements d"
proof -
  obtain ok d1 where l: "log_daily_goals_db uid today gh th apps words 1 d = (ok, d1)"
    by (cases "log_daily_goals_db uid today gh th apps words 1 d")
  from log_daily_goals_db_no_fault [OF assms(1), of uid today gh th apps words 1] l
  have d1: "ok" "users d1 = users d" "penalties d1 = penalties d"
    "achievements d1 = achievements d" "faults d1 = []"
    by simp_all
  from assms(2) d1 have f1: "find (\<lambda>r. user_id r = uid) (users d1) = Some u" by simp
  have row: "u\<lparr>current_streak := current_streak u + 1, total_streak := total_streak u + 1,
               is_locked := is_locked u, lock_end_date := None, last_checkin := Some today\<rparr> =
             u\<lparr>current_streak := current_streak u + 1, total_streak := total_streak u + 1,
               lock_end_date := None, last_checkin := Some today\<rparr>"
    by (cases u) simp
  show "fst (log_daily_goals uid gh th apps words today d) = (True, ''Daily goals completed!'')"
    using assms(3) l d1
    by (simp add: log_daily_goals_def update_user_streak_kept [OF d1(5) f1])
  show "find (\<lambda>r. user_id r = uid) (users (snd (log_daily_goals uid gh th apps words today d))) =
           Some (u\<lparr>current_streak := current_streak u + 1, total_streak := total_streak u + 1,
                   lock_end_date := None, last_checkin := Some today\<rparr>)"
    using assms(3) l d1 row
    by (simp add: log_daily_goals_def update_user_streak_kept [OF d1(5) f1] find_update_rows
        assms(2))
  show "penalties (snd (log_daily_goals uid gh th apps words today d)) = penalties d"
    using assms(3) l d1
    by (simp add: log_daily_goals_def update_user_streak_kept [OF d1(5) f1])
  show "achievements (snd (log_daily_goals uid gh th apps words today d)) = achievements d"
    using assms(3) l d1
    by (simp add: log_daily_goals_def update_user_streak_kept [OF d1(5) f1])
qed

text \<open>
  Claim C4: from either state, a Pass verdict adds 1 to \<open>current_streak\<close> and to
  \<open>total_streak\<close>, sets \<open>is_locked\<close> to false, clears \<open>lock_end_date\<close> and sets
  \<open>last_checkin\<close> to the evaluation date. For the user of \<open>locked_db\<close>, who passes on
  day 100 while locked, the counters, the lock end date and the check-in date come out as
  claimed, and \<open>is_locked\<close> is still 1.
\<close>

theorem pass_while_locked_keeps_is_locked:
  "users (snd (log_daily_goals 1 2 3 5 50 100 locked_db)) =
     [\<lparr>user_id = 1, total_streak = 5, current_streak = 1, last_checkin = Some 100,
       is_locked = 1, lock_end_date = None\<rparr>]"
  by (simp add: locked_db_def log_daily_goals_def goals_met_def
      log_daily_goals_db_def db_attempt_def update_user_streak_def get_user_def
      update_user_streak_data_def)

section \<open>The transition on a Fail verdict\<close>

text \<open>
  Claim C5: a Fail verdict sets \<open>current_streak\<close> to 0, leaves \<open>total_streak\<close> as it was,
  sets \<open>is_locked\<close>, sets \<open>lock_end_date\<close> to the day after the evaluation date and
  \<open>last_checkin\<close> to the evaluation date, and records exactly one penalty of 10.0 with the
  reason "Daily goals not met", dated the evaluation date. Stated of \<^verbatim>\<open>log_daily_goals\<close>
  for a user \<open>u\<close> that exists, on a store that does not fail: the user's row afterwards is
  \<open>u\<close> with those four columns set, and the penalty table has grown by that one row.
\<close>

theorem log_daily_goals_fail:
  assumes "faults d = []"
    and "find (\<lambda>r. user_id r = uid) (users d) = Some u"
    and "\<not> goals_met gh th apps words"
  shows "fst (log_daily_goals uid gh th apps words today d) =
           (False, ''Daily goals not met. App locked for 24 hours and penalty applied.'') \<and>
         find (\<lambda>r. user_id r = uid) (users (snd (log_daily_goals uid gh th apps words today d))) =
           Some (u\<lparr>current_streak := 0, is_locked := 1, lock_end_date := Some (today + 1),
                   last_checkin := Some today\<rparr>) \<and>
         penalties (snd (log_daily_goals uid gh th apps words today d)) =
           penalties d @ [\<lparr>pen_user_id = uid, amount = 10, reason = ''Daily goals not met'',
                            pen_date = today, paid = 0\<rparr>] \<and>
         achievements (snd (log_daily_goals uid gh th apps words today d)) = achievements d"
proof -
  obtain ok d1 where l: "log_daily_goals_db uid today gh th apps words 0 d = (ok, d1)"
    by (cases "log_daily_goals_db uid today gh th apps words 0 d")
  from log_daily_goals_db_no_fault [OF assms(1), of uid today gh th apps words 0] l
  have d1: "ok" "users d1 = users d" "penalties d1 = penalties d"
    "achievements d1 = achievements d" "faults d1 = []"
    by simp_all
  from assms(2) d1 have f1: "find (\<lambda>r. user_id r = uid) (users d1) = Some u" by simp
  have row: "u\<lparr>current_streak := 0, total_streak := total_streak u, is_locked := 1,
               lock_end_date := Some (today + 1), last_checkin := Some today\<rparr> =
             u\<lparr>current_streak := 0, is_locked := 1, lock_end_date := Some (today + 1),
               last_checkin := Some today\<rparr>"
    by (cases u) simp
  show ?thesis
    using assms(3) l d1 row
    by (simp add: log_daily_goals_def update_user_streak_broken [OF d1(5) f1] add_penalty_def
        add_penalty_db_def db_attempt_def find_update_rows assms(2))
qed


theorem log_daily_goals_fail_witness:
  "faults streak_db = [] \<and>
   find (\<lambda>r. user_id r = 1) (users streak_db) = Some (hd (users streak_db)) \<and>
   \<not> goals_met 1 1 1 10 \<and>
   fst (log_daily_goals 1 1 1 1 10 100 streak_db) =
     (False, ''Daily goals not met. App locked for 24 hours and penalty applied.'') \<and>
   find (\<lambda>r. user_id r = 1) (users (snd (log_daily_goals 1 1 1 1 10 100 streak_db))) =
     Some \<lparr>user_id = 1, total_streak = 9, current_streak = 0, last_checkin = Some 100,
           is_locked = 1, lock_end_date = Some 101\<rparr> \<and>
   penalties (snd (log_daily_goals 1 1 1 1 10 100 streak_db)) =
     [\<lparr>pen_user_id = 1, amount = 10, reason = ''Daily goals not met'', pen_date = 100,
       paid = 0\<rparr>]"
proof -
  have a: "faults streak_db = []"
    by (simp add: streak_db_def)
  have b: "find (\<lambda>r. user_id r = 1) (users streak_db) = Some (hd (users streak_db))"
    by (simp add: streak_db_def)
  have c: "\<not> goals_met 1 1 1 10"
    by (simp add: goals_met_def)
  show ?thesis
    using a b c log_daily_goals_fail [OF a b c, of 100]
    by (simp add: streak_db_def)
qed

section \<open>Emergency unlock\<close>

text \<open>
  What the block under the Confirm button does when it is run on a store that does not
  fail: one penalty of 50.0, then the streak reset and the lock cleared.
\<close>

lemma confirm_emergency_unlock_effects:
  assumes "faults d = []"
  shows "confirm_emergency_unlock uid today d =
     (''Emergency unlock complete. Streak reset. Keep going!'',
      d\<lparr>penalties := penalties d @
           [\<lparr>pen_user_id = uid, amount = 50, reason = ''Emergency unlock'', pen_date = today,
             paid = 0\<rparr>],
         users := map (\<lambda>u. if user_id u = uid
                           then u\<lparr>current_streak := 0, is_locked := 0, lock_end_date := None\<rparr>
                           else u) (users d)\<rparr>)"
  using assms
  by (simp add: confirm_emergency_unlock_def add_penalty_def add_penalty_db_def
      reset_streak_and_unlock_def reset_streak_and_unlock_db_def db_attempt_def)

text \<open>
  The Confirm button is drawn inside the branch of the Emergency Unlock button. In the
  run started by a click on Confirm the outer button is false, so the block is not
  reached: no run of the page, whatever was clicked, changes a penalty or a user row.
\<close>

lemma db_attempt_tables:
  "users (snd (db_attempt d)) = users d"
  "penalties (snd (db_attempt d)) = penalties d"
  by (simp_all add: db_attempt_def split: list.splits)

lemma settings_page_writes_nothing:
  "penalties (snd (settings_page uid clicked gemini_available new_api_key today d)) =
     penalties d \<and>
   users (snd (settings_page uid clicked gemini_available new_api_key today d)) = users d"
proof -
  obtain u d0 where g: "get_user uid d = (u, d0)"
    by (cases "get_user uid d")
  then have d0: "d0 = snd (db_attempt d)"
    by (auto simp add: get_user_def split: prod.splits if_splits)
  have t0: "users d0 = users d" "penalties d0 = penalties d"
    by (simp_all add: d0 db_attempt_tables)
  have nested: "\<not> st_button clicked Confirm_Emergency_Unlock"
    if "st_button clicked Emergency_Unlock"
    using that by (auto simp add: st_button_def)
  show ?thesis
    using g t0 nested
    by (cases u)
      (auto simp add: settings_page_def Let_def update_gemini_api_key_def db_attempt_tables)
qed

text \<open>
  Claim C6: the emergency unlock, in any state, adds exactly one penalty of 50.0, resets
  \<open>current_streak\<close> to 0 and clears the lock, as one atomic unit. The locked user of
  \<open>locked_db\<close> and the active user of \<open>streak_db\<close> click Emergency Unlock and then
  Confirm: after the two runs of the page there is no penalty, the first is still locked
  until day 101 and the second still has a streak of 5.
\<close>

theorem emergency_unlock_never_runs:
  "penalties (snd (settings_page 1 (Some Confirm_Emergency_Unlock) True [] 100
      (snd (settings_page 1 (Some Emergency_Unlock) True [] 100 locked_db)))) = [] \<and>
   users (snd (settings_page 1 (Some Confirm_Emergency_Unlock) True [] 100
      (snd (settings_page 1 (Some Emergency_Unlock) True [] 100 locked_db)))) =
     [\<lparr>user_id = 1, total_streak = 4, current_streak = 0, last_checkin = Some 100,
       is_locked = 1, lock_end_date = Some 101\<rparr>] \<and>
   penalties (snd (settings_page 1 (Some Confirm_Emergency_Unlock) True [] 100
      (snd (settings_page 1 (Some Emergency_Unlock) True [] 100 streak_db)))) = [] \<and>
   users (snd (settings_page 1 (Some Confirm_Emergency_Unlock) True [] 100
      (snd (settings_page 1 (Some Emergency_Unlock) True [] 100 streak_db)))) =
     [\<lparr>user_id = 1, total_streak = 9, current_streak = 5, last_checkin = Some 99,
       is_locked = 0, lock_end_date = None\<rparr>]"
  by (simp add: settings_page_def get_user_def db_attempt_def st_button_def
      locked_db_def streak_db_def)

section \<open>Redemption on the lock page\<close>

text \<open>
  Both redemption-task buttons pass the keyword \<^verbatim>\<open>checkin_completed\<close>, which names no
  parameter of \<^verbatim>\<open>log_daily_goals\<close>, and leave three parameters unbound: the call raises
  before the body runs, for every user and store. The payment button calls
  \<^verbatim>\<open>add_penalty\<close> and \<^verbatim>\<open>unlock_app\<close> and does clear the lock, the streak untouched.
\<close>

lemma lock_page_task_buttons_raise:
  "lock_page_german_study uid today d = Inl TypeError"
  "lock_page_applications uid today d = Inl TypeError"
  by (simp_all add: lock_page_german_study_def lock_page_applications_def
      call_log_daily_goals_def bind_arguments_def log_daily_goals_params_def)

lemma lock_page_pay_unlocks:
  assumes "faults d = []"
  shows "snd (lock_page_pay uid today d) =
     d\<lparr>penalties := penalties d @
          [\<lparr>pen_user_id = uid, amount = 20, reason = ''Redemption payment'', pen_date = today,
            paid = 0\<rparr>],
        users := map (\<lambda>u. if user_id u = uid then u\<lparr>is_locked := 0, lock_end_date := None\<rparr>
                          else u) (users d)\<rparr>"
  using assms
  by (simp add: lock_page_pay_def add_penalty_def add_penalty_db_def unlock_app_def
      unlock_app_db_def db_attempt_def)

text \<open>
  Claim C7: a user locked until tomorrow who completes a redemption task (3 hours of
  German study) is Active at once, \<open>is_locked\<close> and \<open>lock_end_date\<close> cleared, with
  \<open>current_streak\<close> still 0. For the user of \<open>locked_db\<close> the button's handler ends in
  \<^verbatim>\<open>TypeError\<close>; \<^verbatim>\<open>unlock_app\<close> is not reached and the row is as before, locked until
  day 101.
\<close>

theorem lock_page_german_study_raises:
  "lock_page_german_study 1 100 locked_db = Inl TypeError \<and>
   users (store_after locked_db (lock_page_german_study 1 100 locked_db)) =
     [\<lparr>user_id = 1, total_streak = 4, current_streak = 0, last_checkin = Some 100,
       is_locked = 1, lock_end_date = Some 101\<rparr>]"
  by (simp add: lock_page_german_study_def call_log_daily_goals_def bind_arguments_def
      log_daily_goals_params_def store_after_def locked_db_def)

section \<open>Seven passing days\<close>

text \<open>
  Claim C8: from a fresh streak every Pass fires the achievement check on the resulting
  \<open>current_streak\<close>, and seven passing days in a row create "Week Warrior" exactly once,
  on day 7. On the check-in page, \<^verbatim>\<open>log_daily_goals\<close> has already applied the transition
  when the page calls \<^verbatim>\<open>update_user_streak\<close> itself, so each day adds 2: after seven
  days the streak is 14, it never was 7, and no achievement exists. Through
  \<^verbatim>\<open>log_daily_goals\<close> alone the streak is 7 after seven days, and nothing checks it.
\<close>

theorem seven_pass_days_no_week_warrior:
  "users (fold (\<lambda>day d. checkin_page 1 2 3 5 50 day d) seven_days fresh_db) =
     [\<lparr>user_id = 1, total_streak = 14, current_streak = 14, last_checkin = Some 7,
       is_locked = 0, lock_end_date = None\<rparr>] \<and>
   achievements (fold (\<lambda>day d. checkin_page 1 2 3 5 50 day d) seven_days fresh_db) = [] \<and>
   users (fold (\<lambda>day d. snd (log_daily_goals 1 2 3 5 50 day d)) seven_days fresh_db) =
     [\<lparr>user_id = 1, total_streak = 7, current_streak = 7, last_checkin = Some 7,
       is_locked = 0, lock_end_date = None\<rparr>] \<and>
   achievements (fold (\<lambda>day d. snd (log_daily_goals 1 2 3 5 50 day d)) seven_days fresh_db) = []"
  by (simp add: seven_days_def fresh_db_def new_user_row_def checkin_page_def
      check_daily_completion_def get_daily_goal_completion_status_def tuple_truthy_def
      log_daily_goals_def goals_met_def log_daily_goals_db_def db_attempt_def
      update_user_streak_def get_user_def update_user_streak_data_def add_achievement_def
      add_achievement_db_def)

section \<open>Penalties of any amount\<close>

text \<open>
  Claim C9 says that a penalty whose amount is not positive is rejected before any
  mutation, so that no such row exists. \<^verbatim>\<open>add_penalty\<close> and \<^verbatim>\<open>add_penalty_db\<close> never
  look at the amount: a penalty of -5 is recorded like any other.
\<close>

theorem add_penalty_negative_amount_counterexample:
  "add_penalty 1 (- 5) ''Refund'' 100 fresh_db =
     (True, fresh_db\<lparr>penalties :=
        [\<lparr>pen_user_id = 1, amount = - 5, reason = ''Refund'', pen_date = 100, paid = 0\<rparr>]\<rparr>)"
  by (simp add: add_penalty_def add_penalty_db_def db_attempt_def fresh_db_def)

text \<open>
  Claim C9 as amended: \<^verbatim>\<open>add_penalty\<close> does not validate the amount. For every amount,
  positive, zero or negative, it appends exactly one penalty row with that amount and
  returns True whenever the store write succeeds (a store that never fails, or one whose
  next call does not fail); it writes nothing and returns False only when the store write
  fails.
\<close>

theorem add_penalty_any_amount:
  "(faults d = [] \<longrightarrow>
      add_penalty uid amt why today d =
        (True, d\<lparr>penalties := penalties d @
           [\<lparr>pen_user_id = uid, amount = amt, reason = why, pen_date = today, paid = 0\<rparr>]\<rparr>)) \<and>
   (faults d = False # fs \<longrightarrow>
      add_penalty uid amt why today d =
        (True, d\<lparr>faults := fs, penalties := penalties d @
           [\<lparr>pen_user_id = uid, amount = amt, reason = why, pen_date = today, paid = 0\<rparr>]\<rparr>)) \<and>
   (faults d = True # fs \<longrightarrow> add_penalty uid amt why today d = (False, d\<lparr>faults := fs\<rparr>))"
  by (simp add: add_penalty_def add_penalty_db_def db_attempt_def)

theorem add_penalty_any_amount_witness:
  "faults fresh_db = [] \<and>
   add_penalty 1 0 ''Nothing owed'' 100 fresh_db =
     (True, fresh_db\<lparr>penalties :=
        [\<lparr>pen_user_id = 1, amount = 0, reason = ''Nothing owed'', pen_date = 100, paid = 0\<rparr>]\<rparr>) \<and>
   faults failing_store_db = False # [True] \<and>
   add_penalty 1 (- 5) ''Refund'' 100 failing_store_db =
     (True, locked_db\<lparr>faults := [True], penalties :=
        [\<lparr>pen_user_id = 1, amount = - 5, reason = ''Refund'', pen_date = 100, paid = 0\<rparr>]\<rparr>) \<and>
   faults (fresh_db\<lparr>faults := [True]\<rparr>) = True # [] \<and>
   add_penalty 1 0 ''Nothing owed'' 100 (fresh_db\<lparr>faults := [True]\<rparr>) = (False, fresh_db)"
proof -
  have a: "faults fresh_db = []"
    by (simp add: fresh_db_def)
  have b: "faults failing_store_db = False # [True]"
    by (simp add: failing_store_db_def)
  have c: "faults (fresh_db\<lparr>faults := [True]\<rparr>) = True # []"
    by simp
  show ?thesis
    using a b c add_penalty_any_amount [of fresh_db 1 0 "''Nothing owed''" 100]
      add_penalty_any_amount [where d = failing_store_db and fs = "[True]" and uid = 1
        and amt = "- 5" and why = "''Refund''" and today = 100]
      add_penalty_any_amount [where d = "fresh_db\<lparr>faults := [True]\<rparr>" and fs = "[]"
        and uid = 1 and amt = 0 and why = "''Nothing owed''" and today = 100]
    by (simp add: fresh_db_def failing_store_db_def locked_db_def)
qed

section \<open>A streak update for an unknown user\<close>

text \<open>
  Claim C10: when no user row has the given id, \<^verbatim>\<open>update_user_streak\<close> returns False and
  writes nothing: all four tables are as before, whether the store fails or not.
\<close>

theorem update_user_streak_no_user:
  assumes "find (\<lambda>u. user_id u = uid) (users d) = None"
  shows "fst (update_user_streak uid streak_broken today d) = False \<and>
         users (snd (update_user_streak uid streak_broken today d)) = users d \<and>
         daily_goals (snd (update_user_streak uid streak_broken today d)) = daily_goals d \<and>
         achievements (snd (update_user_streak uid streak_broken today d)) = achievements d \<and>
         penalties (snd (update_user_streak uid streak_broken today d)) = penalties d"
  using assms
  by (cases "faults d") (simp_all add: update_user_streak_def get_user_def db_attempt_def)

theorem update_user_streak_no_user_witness:
  "find (\<lambda>u. user_id u = 2) (users fresh_db) = None \<and>
   fst (update_user_streak 2 False 100 fresh_db) = False \<and>
   users (snd (update_user_streak 2 False 100 fresh_db)) = [new_user_row 1] \<and>
   penalties (snd (update_user_streak 2 False 100 fresh_db)) = [] \<and>
   achievements (snd (update_user_streak 2 False 100 fresh_db)) = []"
proof -
  have a: "find (\<lambda>u. user_id u = 2) (users fresh_db) = None"
    by (simp add: fresh_db_def new_user_row_def)
  show ?thesis
    using a update_user_streak_no_user [OF a, of False 100]
    by (simp add: fresh_db_def)
qed

end
